theory Spec2Isabelle
  imports Main
begin

section \<open>The taskpane visibility check of \<open>verification/verify_taskpane.py\<close>\<close>

text \<open>
  The script is one function, \<open>run\<close>: inside \<open>with sync_playwright() as p\<close> it launches
  a headless Chromium, opens a page, navigates to a \<open>file://\<close> URL made from the working
  directory, asks whether \<open>#baseUrlInput\<close> is visible, fills it if so, takes a screenshot
  and closes the browser. Everything it does is an effect on the world outside it, so the
  model threads an explicit state through the calls, in the order of the source, and an
  exception of a call is an \<open>error\<close> value that ends the body.
\<close>

subsection \<open>Data\<close>

text \<open>An element of the page: whether it is visible, whether it can be filled (an
  enabled, editable input, textarea or contenteditable element), and its value.\<close>

record element =
  visible :: bool
  editable :: bool
  val :: string

type_synonym dom = "string \<rightharpoonup> element"

text \<open>A document: its elements by \<open>id\<close>, and the height of the rendered page in pixels.\<close>

record document =
  elements :: dom
  height :: nat

text \<open>What a screenshot holds: whether the full page was asked for, how many pixel rows of
  the page were captured, and the document that was rendered.\<close>

record capture =
  full_page :: bool
  rows :: nat
  shown :: document

text \<open>A file is an HTML document, an image, or a file that exists and cannot be read.\<close>

datatype content = Html document | Image capture | Denied

datatype error = EnvironmentError | EncodeError | NavigationError | ElementError

text \<open>The calls the script makes, with their arguments, in the order they are made.\<close>

datatype call =
    Start
  | Launch bool
  | NewPage
  | Getcwd
  | Print string
  | Goto string
  | Locator string
  | IsVisible string
  | Fill string string
  | Screenshot string "bool option"
  | Close
  | Stop

text \<open>
  The world the process is started in: the working directory, the command line, the
  environment, the file system (by absolute path, slashes not repeated), what a network
  request for a URL would return, the directories that hold a browser build and the
  directory Playwright looks in when the environment names none. Whether leaving the
  Playwright context also ends a browser that is still open is a property of the library,
  not of the script; it is a parameter of the world, \<open>exit_closes_browser\<close>.
\<close>

record world =
  cwd :: string
  argv :: "string list"
  environ :: "(string \<times> string) list"
  files :: "string \<rightharpoonup> content"
  web :: "string \<rightharpoonup> document"
  browser_dirs :: "string \<Rightarrow> bool"
  default_browsers_path :: string
  exit_closes_browser :: bool

text \<open>The state the calls act on: standard output (one entry per \<open>print\<close>), the file
  system, the document of the page (kept as last seen once the browser is gone), which of
  the two processes run, the network requests made, and the calls so far.\<close>

record state =
  out :: "string list"
  fs :: "string \<rightharpoonup> content"
  page :: document
  driver_running :: bool
  browser_running :: bool
  requests :: "string list"
  trace :: "call list"

definition blank :: document where
  "blank = \<lparr>elements = Map.empty, height = 0\<rparr>"

definition init :: "world \<Rightarrow> state" where
  "init w = \<lparr>out = [], fs = files w, page = blank, driver_running = False,
     browser_running = False, requests = [], trace = []\<rparr>"

subsection \<open>What the interpreter and Playwright take from the environment\<close>

text \<open>The script reads neither \<open>sys.argv\<close> nor \<open>os.environ\<close>. The interpreter and Playwright
  do read the environment: \<open>PYTHONIOENCODING\<close> sets the encoding of standard output, and
  \<open>PLAYWRIGHT_BROWSERS_PATH\<close> the directory the browser is looked for in. Of the
  encodings only \<open>ascii\<close> is told apart, which cannot encode a character above 127; under
  any other setting every line is taken to be encodable.\<close>

definition stdout_ascii :: "world \<Rightarrow> bool" where
  "stdout_ascii w = (map_of (environ w) ''PYTHONIOENCODING'' = Some ''ascii'')"

definition is_ascii :: "char \<Rightarrow> bool" where
  "is_ascii c = (\<not> digit7 c)"

definition encodable :: "world \<Rightarrow> string \<Rightarrow> bool" where
  "encodable w l = (if stdout_ascii w then list_all is_ascii l else True)"

definition browsers_path :: "world \<Rightarrow> string" where
  "browsers_path w =
     (case map_of (environ w) ''PLAYWRIGHT_BROWSERS_PATH'' of
        None \<Rightarrow> default_browsers_path w
      | Some p \<Rightarrow> p)"

definition runtime_available :: "world \<Rightarrow> bool" where
  "runtime_available w = browser_dirs w (browsers_path w)"

subsection \<open>Paths and file URLs\<close>

text \<open>The operating system takes repeated slashes as one.\<close>

fun normpath :: "string \<Rightarrow> string" where
  "normpath (a # b # cs) =
     (if a = CHR ''/'' \<and> b = CHR ''/'' then normpath (b # cs) else a # normpath (b # cs))"
| "normpath cs = cs"

text \<open>A relative path is taken from the working directory.\<close>

fun abspath :: "string \<Rightarrow> string \<Rightarrow> string" where
  "abspath d [] = normpath d"
| "abspath d (c # p) = normpath (if c = CHR ''/'' then c # p else d @ ''/'' @ c # p)"

definition hexval :: "char \<Rightarrow> nat option" where
  "hexval c = (let n = (of_char c :: nat) in
     if 48 \<le> n \<and> n \<le> 57 then Some (n - 48)
     else if 65 \<le> n \<and> n \<le> 70 then Some (n - 55)
     else if 97 \<le> n \<and> n \<le> 102 then Some (n - 87)
     else None)"

fun unquote :: "string \<Rightarrow> string" where
  "unquote (c # a # b # r) =
     (if c = CHR ''%''
      then (case (hexval a, hexval b) of
              (Some x, Some y) \<Rightarrow> char_of (16 * x + y) # unquote r
            | _ \<Rightarrow> c # unquote (a # b # r))
      else c # unquote (a # b # r))"
| "unquote cs = cs"

text \<open>
  The browser parses the text after \<open>file://\<close> as a URL, and the script does not quote
  the working directory: tabs and line breaks are dropped, the path ends at the first
  \<open>#\<close> or \<open>?\<close>, a backslash is a slash, and \<open>%xx\<close> is decoded. \<open>url_char\<close> holds of
  the characters that this leaves alone.
\<close>

definition url_path :: "string \<Rightarrow> string" where
  "url_path u = unquote (map (\<lambda>c. if c = CHR 0x5C then CHR ''/'' else c)
     (takeWhile (\<lambda>c. c \<noteq> CHR ''#'' \<and> c \<noteq> CHR ''?'')
       (filter (\<lambda>c. c \<noteq> CHR 0x09 \<and> c \<noteq> CHR 0x0A \<and> c \<noteq> CHR 0x0D) u)))"

definition url_char :: "char \<Rightarrow> bool" where
  "url_char c = (c \<noteq> CHR ''#'' \<and> c \<noteq> CHR ''?'' \<and> c \<noteq> CHR ''%'' \<and> c \<noteq> CHR 0x5C
     \<and> c \<noteq> CHR 0x09 \<and> c \<noteq> CHR 0x0A \<and> c \<noteq> CHR 0x0D)"

subsection \<open>The calls of the environment\<close>

text \<open>
  Playwright and the operating system are not part of the repository. Each call is modelled
  by its documented behaviour, as far as the script can observe it:
  \<^item> \<open>print\<close> raises when standard output cannot encode the line;
  \<^item> entering \<open>sync_playwright()\<close> starts the driver process and leaving the \<open>with\<close> block
    stops it; a browser still open then is ended or not as \<open>exit_closes_browser\<close> says;
  \<^item> \<open>launch\<close> raises when no browser build is found;
  \<^item> \<open>new_page\<close> opens an empty page with the default viewport, 720 pixels high;
  \<^item> \<open>goto\<close> of a \<open>file://\<close> URL opens the file at the path of the URL and raises when
    there is none or it cannot be read; any other URL is a network request;
  \<^item> a locator is lazy: it is the selector, resolved at each use; \<open>#x\<close> selects the
    element with id \<open>x\<close>;
  \<^item> \<open>is_visible\<close> is false for an element that is absent, and never raises;
  \<^item> \<open>fill\<close> sets the value of an element that is visible and editable, and raises on
    any other;
  \<^item> \<open>screenshot\<close> captures the viewport unless \<open>full_page\<close> is passed as true, and writes
    the image to the path, creating or replacing the file;
  \<^item> \<open>close\<close> ends the browser process.
\<close>

definition print_line :: "world \<Rightarrow> string \<Rightarrow> state \<Rightarrow> error option \<times> state" where
  "print_line w l s =
     (if encodable w l
      then (None, s\<lparr>out := out s @ [l], trace := trace s @ [Print l]\<rparr>)
      else (Some EncodeError, s\<lparr>trace := trace s @ [Print l]\<rparr>))"

definition sync_playwright :: "state \<Rightarrow> state" where
  "sync_playwright s = s\<lparr>driver_running := True, trace := trace s @ [Start]\<rparr>"

definition playwright_exit :: "world \<Rightarrow> state \<Rightarrow> state" where
  "playwright_exit w s =
     s\<lparr>driver_running := False,
       browser_running := (if exit_closes_browser w then False else browser_running s),
       trace := trace s @ [Stop]\<rparr>"

definition launch :: "world \<Rightarrow> bool \<Rightarrow> state \<Rightarrow> error option \<times> state" where
  "launch w headless s =
     (if runtime_available w
      then (None, s\<lparr>browser_running := True, trace := trace s @ [Launch headless]\<rparr>)
      else (Some EnvironmentError, s\<lparr>trace := trace s @ [Launch headless]\<rparr>))"

definition viewport_height :: nat where
  "viewport_height = 720"

definition new_page :: "state \<Rightarrow> state" where
  "new_page s = s\<lparr>page := blank, trace := trace s @ [NewPage]\<rparr>"

definition getcwd :: "world \<Rightarrow> state \<Rightarrow> string \<times> state" where
  "getcwd w s = (cwd w, s\<lparr>trace := trace s @ [Getcwd]\<rparr>)"

text \<open>The document a file gives when the browser opens it, if it can be opened.\<close>

fun load :: "content option \<Rightarrow> document option" where
  "load None = None"
| "load (Some Denied) = None"
| "load (Some (Html d)) = Some d"
| "load (Some (Image c)) = Some \<lparr>elements = Map.empty, height = rows c\<rparr>"

definition goto :: "world \<Rightarrow> string \<Rightarrow> state \<Rightarrow> error option \<times> state" where
  "goto w url s =
     (let s' = s\<lparr>trace := trace s @ [Goto url]\<rparr> in
      if take 7 url = ''file://''
      then (case load (fs s' (normpath (url_path (drop 7 url)))) of
              None \<Rightarrow> (Some NavigationError, s')
            | Some d \<Rightarrow> (None, s'\<lparr>page := d\<rparr>))
      else (let s'' = s'\<lparr>requests := requests s' @ [url]\<rparr> in
            case web w url of
              None \<Rightarrow> (Some NavigationError, s'')
            | Some d \<Rightarrow> (None, s''\<lparr>page := d\<rparr>)))"

definition locator :: "string \<Rightarrow> state \<Rightarrow> string \<times> state" where
  "locator sel s = (sel, s\<lparr>trace := trace s @ [Locator sel]\<rparr>)"

fun resolve :: "dom \<Rightarrow> string \<Rightarrow> (string \<times> element) option" where
  "resolve d [] = None"
| "resolve d (c # ident) =
     (if c = CHR ''#''
      then (case d ident of None \<Rightarrow> None | Some e \<Rightarrow> Some (ident, e))
      else None)"

definition is_visible :: "string \<Rightarrow> state \<Rightarrow> bool \<times> state" where
  "is_visible sel s =
     ((case resolve (elements (page s)) sel of None \<Rightarrow> False | Some (i, e) \<Rightarrow> visible e),
      s\<lparr>trace := trace s @ [IsVisible sel]\<rparr>)"

definition fill :: "string \<Rightarrow> string \<Rightarrow> state \<Rightarrow> error option \<times> state" where
  "fill sel v s =
     (let s' = s\<lparr>trace := trace s @ [Fill sel v]\<rparr> in
      case resolve (elements (page s')) sel of
        None \<Rightarrow> (Some ElementError, s')
      | Some (i, e) \<Rightarrow>
          if visible e \<and> editable e
          then (None,
                s'\<lparr>page := (page s')\<lparr>elements := (elements (page s'))(i \<mapsto> e\<lparr>val := v\<rparr>)\<rparr>\<rparr>)
          else (Some ElementError, s'))"

definition screenshot :: "world \<Rightarrow> string \<Rightarrow> bool option \<Rightarrow> state \<Rightarrow> state" where
  "screenshot w path fp s =
     (let full = (case fp of None \<Rightarrow> False | Some b \<Rightarrow> b) in
      s\<lparr>fs := (fs s)(abspath (cwd w) path \<mapsto>
              Image \<lparr>full_page = full,
                     rows = (if full then height (page s)
                             else min (height (page s)) viewport_height),
                     shown = page s\<rparr>),
        trace := trace s @ [Screenshot path fp]\<rparr>)"

definition browser_close :: "state \<Rightarrow> state" where
  "browser_close s = s\<lparr>browser_running := False, trace := trace s @ [Close]\<rparr>"

subsection \<open>The script\<close>

definition filepath :: "string \<Rightarrow> string" where
  "filepath d = ''file://'' @ d @ ''/src/taskpane/taskpane.html''"

text \<open>A statement that raises ends the body with the error and the state reached;
  otherwise the statements after it run.\<close>

definition and_then ::
  "error option \<times> state \<Rightarrow> (state \<Rightarrow> error option \<times> state) \<Rightarrow> error option \<times> state" where
  "and_then r f = (case r of (Some e, s) \<Rightarrow> (Some e, s) | (None, s) \<Rightarrow> f s)"

text \<open>The body of the \<open>with\<close> block, statement by statement.\<close>

definition body :: "world \<Rightarrow> state \<Rightarrow> error option \<times> state" where
  "body w s0 =
     and_then (launch w True s0) (\<lambda>s1.
       let s2 = new_page s1;
           (d, s3) = getcwd w s2
       in and_then (print_line w (''Navigating to '' @ filepath d) s3) (\<lambda>s4.
          and_then (goto w (filepath d) s4) (\<lambda>s5.
            let (base_url_input, s6) = locator ''#baseUrlInput'' s5;
                (v, s7) = is_visible base_url_input s6
            in and_then
                 (if v
                  then and_then (print_line w ''Base URL input is visible'' s7)
                         (fill base_url_input ''https://api.gptbots.ai/v1'')
                  else print_line w ''Base URL input NOT visible'' s7)
                 (\<lambda>s8. (None,
                    browser_close
                      (screenshot w ''verification/taskpane_screenshot.png'' None s8))))))"

text \<open>\<open>run\<close>: the \<open>with\<close> statement leaves the Playwright context on every path, with or
  without an exception, and lets the exception through.\<close>

definition run :: "world \<Rightarrow> error option \<times> state" where
  "run w = (case body w (sync_playwright (init w)) of (r, s) \<Rightarrow> (r, playwright_exit w s))"

text \<open>The process: \<open>run()\<close> is called with no handler around it, so an exception ends the
  process with status 1, and a normal return with status 0.\<close>

definition main :: "world \<Rightarrow> nat \<times> state" where
  "main w = (case run w of (None, s) \<Rightarrow> (0, s) | (Some e, s) \<Rightarrow> (1, s))"

subsection \<open>The terms of the claims\<close>

text \<open>The file the claims call the target, the file the browser opens for the URL of the
  script, and the file the screenshot goes to.\<close>

definition target_path :: "world \<Rightarrow> string" where
  "target_path w = normpath (cwd w @ ''/src/taskpane/taskpane.html'')"

definition opened_path :: "world \<Rightarrow> string" where
  "opened_path w = normpath (url_path (cwd w @ ''/src/taskpane/taskpane.html''))"

definition screenshot_path :: "world \<Rightarrow> string" where
  "screenshot_path w = normpath (cwd w @ ''/verification/taskpane_screenshot.png'')"

text \<open>The navigation is attempted when the browser was launched and the line before the
  \<open>goto\<close> was printed; it succeeds when the file the browser opens can be loaded.\<close>

definition navigation_attempted :: "world \<Rightarrow> bool" where
  "navigation_attempted w =
     (runtime_available w \<and> encodable w (''Navigating to '' @ filepath (cwd w)))"

definition navigation_succeeds :: "world \<Rightarrow> bool" where
  "navigation_succeeds w =
     (navigation_attempted w \<and> load (files w (opened_path w)) \<noteq> None)"

definition loaded_dom :: "world \<Rightarrow> document" where
  "loaded_dom w = (case load (files w (opened_path w)) of None \<Rightarrow> blank | Some d \<Rightarrow> d)"

definition element_visible :: "world \<Rightarrow> bool" where
  "element_visible w =
     (case elements (loaded_dom w) ''baseUrlInput'' of None \<Rightarrow> False | Some e \<Rightarrow> visible e)"

definition element_editable :: "world \<Rightarrow> bool" where
  "element_editable w =
     (case elements (loaded_dom w) ''baseUrlInput'' of None \<Rightarrow> False | Some e \<Rightarrow> editable e)"

text \<open>The \<open>fill\<close> call, made only when the element is visible, does not raise.\<close>

definition fill_succeeds :: "world \<Rightarrow> bool" where
  "fill_succeeds w = (if element_visible w then element_editable w else True)"

text \<open>The observable steps of a run, ranked in the order the script is written in: launch,
  navigation, visibility query, fill, screenshot, closing the browser, leaving the
  Playwright context. The other calls have no rank.\<close>

fun step_rank :: "call \<Rightarrow> nat option" where
  "step_rank (Launch h) = Some 0"
| "step_rank (Goto u) = Some 1"
| "step_rank (IsVisible l) = Some 2"
| "step_rank (Fill l v) = Some 3"
| "step_rank (Screenshot p f) = Some 4"
| "step_rank Close = Some 5"
| "step_rank Stop = Some 6"
| "step_rank c = None"

definition steps :: "call list \<Rightarrow> nat list" where
  "steps cs = List.map_filter step_rank cs"

text \<open>The two diagnostic lines of the visibility branch.\<close>

definition diagnostic :: "string \<Rightarrow> bool" where
  "diagnostic l = (l = ''Base URL input is visible'' \<or> l = ''Base URL input NOT visible'')"

subsection \<open>Concrete worlds\<close>

text \<open>Pages with the input visible and editable, hidden, visible and disabled, on a page
  taller than the viewport, and without the input.\<close>

definition doc_of :: "bool \<Rightarrow> bool \<Rightarrow> string \<Rightarrow> nat \<Rightarrow> document" where
  "doc_of v e s h =
     \<lparr>elements = [''baseUrlInput'' \<mapsto> \<lparr>visible = v, editable = e, val = s\<rparr>], height = h\<rparr>"

definition doc_visible :: document where
  "doc_visible = doc_of True True [] 600"

definition doc_hidden :: document where
  "doc_hidden = doc_of False True ''old'' 600"

definition doc_disabled :: document where
  "doc_disabled = doc_of True False ''old'' 600"

definition doc_tall :: document where
  "doc_tall = doc_of True True [] 2000"

definition doc_empty :: document where
  "doc_empty = \<lparr>elements = Map.empty, height = 600\<rparr>"

text \<open>A world with a browser build in the default directory.\<close>

definition world_of ::
  "string \<Rightarrow> (string \<times> string) list \<Rightarrow> (string \<rightharpoonup> content) \<Rightarrow> bool \<Rightarrow> world" where
  "world_of d env f x = \<lparr>cwd = d, argv = [], environ = env, files = f, web = Map.empty,
     browser_dirs = (\<lambda>p. p = ''/cache/ms-playwright''),
     default_browsers_path = ''/cache/ms-playwright'', exit_closes_browser = x\<rparr>"

definition world_visible :: world where
  "world_visible =
     world_of ''/w'' [] [''/w/src/taskpane/taskpane.html'' \<mapsto> Html doc_visible] True"

definition world_hidden :: world where
  "world_hidden =
     world_of ''/w'' [] [''/w/src/taskpane/taskpane.html'' \<mapsto> Html doc_hidden] True"

definition world_absent :: world where
  "world_absent =
     world_of ''/w'' [] [''/w/src/taskpane/taskpane.html'' \<mapsto> Html doc_empty] True"

definition world_disabled :: world where
  "world_disabled =
     world_of ''/w'' [] [''/w/src/taskpane/taskpane.html'' \<mapsto> Html doc_disabled] True"

definition world_tall :: world where
  "world_tall =
     world_of ''/w'' [] [''/w/src/taskpane/taskpane.html'' \<mapsto> Html doc_tall] True"

definition world_missing :: world where
  "world_missing = world_of ''/w'' [] Map.empty True"

definition world_denied :: world where
  "world_denied = world_of ''/w'' [] [''/w/src/taskpane/taskpane.html'' \<mapsto> Denied] True"

text \<open>No browser build where the environment points Playwright to.\<close>

definition world_no_browser :: world where
  "world_no_browser =
     world_of ''/w'' [(''PLAYWRIGHT_BROWSERS_PATH'', ''/nowhere'')] Map.empty True"

text \<open>A library whose context exit leaves an open browser alone.\<close>

definition world_leak :: world where
  "world_leak = world_of ''/w'' [] Map.empty False"

text \<open>A second run over the screenshot of a first.\<close>

definition world_rerun :: world where
  "world_rerun = world_of ''/w'' []
     [''/w/src/taskpane/taskpane.html'' \<mapsto> Html doc_hidden,
      ''/w/verification/taskpane_screenshot.png'' \<mapsto>
        Image \<lparr>full_page = False, rows = 0, shown = blank\<rparr>] True"

text \<open>A working directory with \<open>#\<close> in its name: with the target there, and with no
  target but a file where the URL of the script points.\<close>

definition world_hash :: world where
  "world_hash = world_of ''/home/u/C#/proj'' []
     [''/home/u/C#/proj/src/taskpane/taskpane.html'' \<mapsto> Html doc_visible] True"

definition world_hash_other :: world where
  "world_hash_other = world_of ''/home/u/C#/proj'' []
     [''/home/u/C'' \<mapsto> Html doc_hidden] True"

text \<open>The root directory as working directory.\<close>

definition world_root :: world where
  "world_root = world_of ''/'' [] [''/src/taskpane/taskpane.html'' \<mapsto> Html doc_hidden] True"

text \<open>A working directory with a character outside ASCII, without and with
  \<open>PYTHONIOENCODING=ascii\<close>.\<close>

definition world_accent :: world where
  "world_accent = world_of (''/w/caf'' @ [CHR 0xE9]) []
     [''/w/caf'' @ [CHR 0xE9] @ ''/src/taskpane/taskpane.html'' \<mapsto> Html doc_visible] True"

definition world_accent_ascii :: world where
  "world_accent_ascii = world_accent\<lparr>environ := [(''PYTHONIOENCODING'', ''ascii'')]\<rparr>"

text \<open>Another command line and another environment, in variables nothing reads.\<close>

definition world_args :: world where
  "world_args = world_visible\<lparr>argv := [''--url'', ''https://example.org''],
     environ := [(''BASE_URL'', ''https://example.org'')]\<rparr>"

section \<open>The paths of a run\<close>

lemma filepath_scheme: "take 7 (filepath d) = ''file://''"
  by (simp add: filepath_def)

lemma filepath_path: "drop 7 (filepath d) = d @ ''/src/taskpane/taskpane.html''"
  by (simp add: filepath_def)

lemma encodable_literals:
  "encodable w ''Base URL input is visible''" "encodable w ''Base URL input NOT visible''"
  by (simp_all add: encodable_def is_ascii_def)

lemma unquote_plain: "CHR ''%'' \<notin> set s \<Longrightarrow> unquote s = s"
  by (induction s rule: unquote.induct) auto

lemma url_path_plain:
  assumes "list_all url_char s"
  shows "url_path s = s"
proof -
  from assms
  have f: "filter (\<lambda>c. c \<noteq> CHR 0x09 \<and> c \<noteq> CHR 0x0A \<and> c \<noteq> CHR 0x0D) s = s"
    by (induction s) (auto simp add: url_char_def)
  from assms have t: "takeWhile (\<lambda>c. c \<noteq> CHR ''#'' \<and> c \<noteq> CHR ''?'') s = s"
    by (induction s) (auto simp add: url_char_def)
  from assms have m: "map (\<lambda>c. if c = CHR 0x5C then CHR ''/'' else c) s = s"
    by (induction s) (auto simp add: url_char_def)
  from assms have p: "CHR ''%'' \<notin> set s"
    by (induction s) (auto simp add: url_char_def)
  show ?thesis
    by (simp add: url_path_def f t m unquote_plain [OF p])
qed

lemma opened_path_plain: "list_all url_char (cwd w) \<Longrightarrow> opened_path w = target_path w"
  by (simp add: opened_path_def target_path_def url_path_plain url_char_def)

lemmas call_defs = print_line_def sync_playwright_def playwright_exit_def launch_def
  new_page_def getcwd_def goto_def locator_def is_visible_def fill_def screenshot_def
  browser_close_def init_def and_then_def

lemmas term_defs = navigation_attempted_def navigation_succeeds_def loaded_dom_def
  opened_path_def screenshot_path_def

lemma run_launch_fails:
  "\<not> runtime_available w \<Longrightarrow>
   run w = (Some EnvironmentError,
     \<lparr>out = [], fs = files w, page = blank, driver_running = False,
      browser_running = False, requests = [], trace = [Start, Launch True, Stop]\<rparr>)"
  by (simp add: run_def body_def call_defs)

lemma run_print_fails:
  "runtime_available w \<Longrightarrow> \<not> encodable w (''Navigating to '' @ filepath (cwd w)) \<Longrightarrow>
   run w = (Some EncodeError,
     \<lparr>out = [], fs = files w, page = blank, driver_running = False,
      browser_running = (\<not> exit_closes_browser w), requests = [],
      trace = [Start, Launch True, NewPage, Getcwd,
               Print (''Navigating to '' @ filepath (cwd w)), Stop]\<rparr>)"
  by (simp add: run_def body_def call_defs)

lemma run_navigation_fails:
  "navigation_attempted w \<Longrightarrow> load (files w (opened_path w)) = None \<Longrightarrow>
   run w = (Some NavigationError,
     \<lparr>out = [''Navigating to '' @ filepath (cwd w)], fs = files w, page = blank,
      driver_running = False, browser_running = (\<not> exit_closes_browser w), requests = [],
      trace = [Start, Launch True, NewPage, Getcwd,
               Print (''Navigating to '' @ filepath (cwd w)), Goto (filepath (cwd w)), Stop]\<rparr>)"
  by (simp add: run_def body_def call_defs filepath_scheme filepath_path term_defs)

lemma run_filled:
  "navigation_succeeds w \<Longrightarrow> elements (loaded_dom w) ''baseUrlInput'' = Some e \<Longrightarrow>
   visible e \<Longrightarrow> editable e \<Longrightarrow>
   run w = (None,
     \<lparr>out = [''Navigating to '' @ filepath (cwd w), ''Base URL input is visible''],
      fs = (files w)(screenshot_path w \<mapsto>
             Image \<lparr>full_page = False,
                    rows = min (height (loaded_dom w)) viewport_height,
                    shown = (loaded_dom w)\<lparr>elements := (elements (loaded_dom w))
                      (''baseUrlInput'' \<mapsto> e\<lparr>val := ''https://api.gptbots.ai/v1''\<rparr>)\<rparr>\<rparr>),
      page = (loaded_dom w)\<lparr>elements := (elements (loaded_dom w))
               (''baseUrlInput'' \<mapsto> e\<lparr>val := ''https://api.gptbots.ai/v1''\<rparr>)\<rparr>,
      driver_running = False, browser_running = False, requests = [],
      trace = [Start, Launch True, NewPage, Getcwd,
               Print (''Navigating to '' @ filepath (cwd w)), Goto (filepath (cwd w)),
               Locator ''#baseUrlInput'', IsVisible ''#baseUrlInput'',
               Print ''Base URL input is visible'',
               Fill ''#baseUrlInput'' ''https://api.gptbots.ai/v1'',
               Screenshot ''verification/taskpane_screenshot.png'' None, Close, Stop]\<rparr>)"
  by (auto simp add: run_def body_def call_defs filepath_scheme filepath_path term_defs
      encodable_literals)

lemma run_fill_fails:
  "navigation_succeeds w \<Longrightarrow> elements (loaded_dom w) ''baseUrlInput'' = Some e \<Longrightarrow>
   visible e \<Longrightarrow> \<not> editable e \<Longrightarrow>
   run w = (Some ElementError,
     \<lparr>out = [''Navigating to '' @ filepath (cwd w), ''Base URL input is visible''],
      fs = files w, page = loaded_dom w,
      driver_running = False, browser_running = (\<not> exit_closes_browser w), requests = [],
      trace = [Start, Launch True, NewPage, Getcwd,
               Print (''Navigating to '' @ filepath (cwd w)), Goto (filepath (cwd w)),
               Locator ''#baseUrlInput'', IsVisible ''#baseUrlInput'',
               Print ''Base URL input is visible'',
               Fill ''#baseUrlInput'' ''https://api.gptbots.ai/v1'', Stop]\<rparr>)"
  by (auto simp add: run_def body_def call_defs filepath_scheme filepath_path term_defs
      encodable_literals)

lemma run_not_visible:
  "navigation_succeeds w \<Longrightarrow> \<not> element_visible w \<Longrightarrow>
   run w = (None,
     \<lparr>out = [''Navigating to '' @ filepath (cwd w), ''Base URL input NOT visible''],
      fs = (files w)(screenshot_path w \<mapsto>
             Image \<lparr>full_page = False,
                    rows = min (height (loaded_dom w)) viewport_height,
                    shown = loaded_dom w\<rparr>),
      page = loaded_dom w,
      driver_running = False, browser_running = False, requests = [],
      trace = [Start, Launch True, NewPage, Getcwd,
               Print (''Navigating to '' @ filepath (cwd w)), Goto (filepath (cwd w)),
               Locator ''#baseUrlInput'', IsVisible ''#baseUrlInput'',
               Print ''Base URL input NOT visible'',
               Screenshot ''verification/taskpane_screenshot.png'' None, Close, Stop]\<rparr>)"
  by (auto simp add: run_def body_def call_defs filepath_scheme filepath_path term_defs
      element_visible_def encodable_literals split: option.splits)

lemma element_flags:
  "elements (loaded_dom w) ''baseUrlInput'' = Some e \<Longrightarrow> element_visible w = visible e"
  "elements (loaded_dom w) ''baseUrlInput'' = Some e \<Longrightarrow> element_editable w = editable e"
  by (simp_all add: element_visible_def element_editable_def)

lemma run_cases
  [case_names launch_fails print_fails navigation_fails filled fill_fails not_visible]:
  obtains "\<not> runtime_available w"
  | "runtime_available w" "\<not> encodable w (''Navigating to '' @ filepath (cwd w))"
  | "navigation_attempted w" "load (files w (opened_path w)) = None"
  | e where "navigation_succeeds w" "elements (loaded_dom w) ''baseUrlInput'' = Some e"
      "visible e" "editable e"
  | e where "navigation_succeeds w" "elements (loaded_dom w) ''baseUrlInput'' = Some e"
      "visible e" "\<not> editable e"
  | "navigation_succeeds w" "\<not> element_visible w"
proof (cases "navigation_attempted w")
  case False
  then show ?thesis
    using that(1) that(2) by (auto simp add: navigation_attempted_def)
next
  case att: True
  show ?thesis
  proof (cases "load (files w (opened_path w))")
    case None
    then show ?thesis using att that(3) by simp
  next
    case (Some d)
    then have nav: "navigation_succeeds w"
      using att by (simp add: navigation_succeeds_def)
    show ?thesis
    proof (cases "element_visible w")
      case True
      then obtain e where e: "elements (loaded_dom w) ''baseUrlInput'' = Some e" "visible e"
        by (auto simp add: element_visible_def split: option.splits)
      show ?thesis
        using nav e that(4) [of e] that(5) [of e] by (cases "editable e") blast+
    next
      case False
      then show ?thesis using nav that(6) by blast
    qed
  qed
qed

section \<open>The concrete worlds, evaluated\<close>

lemmas world_defs = world_of_def world_visible_def world_hidden_def world_absent_def
  world_disabled_def world_tall_def world_missing_def world_denied_def world_no_browser_def
  world_leak_def world_rerun_def world_hash_def world_hash_other_def world_root_def
  world_accent_def world_accent_ascii_def world_args_def
  doc_of_def doc_visible_def doc_hidden_def doc_disabled_def doc_tall_def doc_empty_def

lemmas eval_defs = term_defs target_path_def element_visible_def element_editable_def
  fill_succeeds_def runtime_available_def browsers_path_def encodable_def stdout_ascii_def
  is_ascii_def url_path_def url_char_def filepath_def

lemma world_visible_facts:
  "navigation_succeeds world_visible" "element_visible world_visible"
  "element_editable world_visible"
  by (simp_all add: world_defs eval_defs)

lemma world_hidden_facts:
  "navigation_succeeds world_hidden" "\<not> element_visible world_hidden"
  by (simp_all add: world_defs eval_defs)

lemma world_absent_facts:
  "navigation_succeeds world_absent" "\<not> element_visible world_absent"
  by (simp_all add: world_defs eval_defs)

lemma world_disabled_facts:
  "navigation_succeeds world_disabled" "element_visible world_disabled"
  "\<not> element_editable world_disabled"
  by (simp_all add: world_defs eval_defs)

lemma world_tall_facts:
  "navigation_succeeds world_tall" "fill_succeeds world_tall"
  "loaded_dom world_tall = doc_tall"
  "screenshot_path world_tall = ''/w/verification/taskpane_screenshot.png''"
  by (simp_all add: world_defs eval_defs)

lemma world_rerun_facts:
  "navigation_succeeds world_rerun" "fill_succeeds world_rerun"
  "\<not> element_visible world_rerun" "loaded_dom world_rerun = doc_hidden"
  "screenshot_path world_rerun = ''/w/verification/taskpane_screenshot.png''"
  by (simp_all add: world_defs eval_defs)

lemma world_missing_facts:
  "navigation_attempted world_missing" "list_all url_char (cwd world_missing)"
  "load (files world_missing (target_path world_missing)) = None"
  by (simp_all add: world_defs eval_defs)

lemma world_denied_facts:
  "navigation_attempted world_denied" "list_all url_char (cwd world_denied)"
  "load (files world_denied (target_path world_denied)) = None"
  "files world_denied (target_path world_denied) = Some Denied"
  by (simp_all add: world_defs eval_defs)

lemma world_no_browser_facts:
  "\<not> runtime_available world_no_browser"
  "files world_no_browser (target_path world_no_browser) = None"
  by (simp_all add: world_defs eval_defs)



lemma world_hash_other_facts:
  "navigation_succeeds world_hash_other" "\<not> element_visible world_hash_other"
  "files world_hash_other (target_path world_hash_other) = None"
  "screenshot_path world_hash_other = ''/home/u/C#/proj/verification/taskpane_screenshot.png''"
  by (simp_all add: world_defs eval_defs)






section \<open>The claims\<close>

text \<open>
  C1, as amended. In every run in which navigation succeeds and the element
  \<open>baseUrlInput\<close> is visible, the script prints \<open>Base URL input is visible\<close> and calls
  \<open>fill\<close> on it with the literal \<open>https://api.gptbots.ai/v1\<close>. When the element can be
  filled (an enabled, editable input) the run ends without an error and the element's value
  is that string afterwards; when it cannot, the \<open>fill\<close> raises and the page is as it
  was loaded.
\<close>

theorem C1_visible_reports_and_fills:
  assumes "navigation_succeeds w" and "element_visible w"
  shows "''Base URL input is visible'' \<in> set (out (snd (run w)))
    \<and> Fill ''#baseUrlInput'' ''https://api.gptbots.ai/v1'' \<in> set (trace (snd (run w)))
    \<and> (if element_editable w
        then fst (run w) = None
          \<and> map_option val (elements (page (snd (run w))) ''baseUrlInput'')
              = Some ''https://api.gptbots.ai/v1''
        else fst (run w) = Some ElementError \<and> page (snd (run w)) = loaded_dom w)"
proof -
  from assms(2) obtain e where e: "elements (loaded_dom w) ''baseUrlInput'' = Some e" "visible e"
    by (auto simp add: element_visible_def split: option.splits)
  show ?thesis
  proof (cases "editable e")
    case True
    then show ?thesis
      by (simp add: run_filled [OF assms(1) e True] element_flags(2) [OF e(1)])
  next
    case False
    then show ?thesis
      by (simp add: run_fill_fails [OF assms(1) e False] element_flags(2) [OF e(1)])
  qed
qed

theorem C1_witness:
  "navigation_succeeds world_visible \<and> element_visible world_visible
   \<and> fst (run world_visible) = None
   \<and> ''Base URL input is visible'' \<in> set (out (snd (run world_visible)))
   \<and> map_option val (elements (page (snd (run world_visible))) ''baseUrlInput'')
       = Some ''https://api.gptbots.ai/v1''"
  using C1_visible_reports_and_fills [OF world_visible_facts(1,2)] world_visible_facts
  by simp

text \<open>The claim as it was stated fails on a page whose input is visible and disabled:
  the line is printed, the \<open>fill\<close> raises, and the value is not the literal.\<close>

theorem C1_counterexample:
  "navigation_succeeds world_disabled \<and> element_visible world_disabled
   \<and> ''Base URL input is visible'' \<in> set (out (snd (run world_disabled)))
   \<and> fst (run world_disabled) = Some ElementError
   \<and> map_option val (elements (page (snd (run world_disabled))) ''baseUrlInput'') = Some ''old''"
proof -
  have e: "elements (loaded_dom world_disabled) ''baseUrlInput''
      = Some \<lparr>visible = True, editable = False, val = ''old''\<rparr>"
    by (simp add: world_defs eval_defs)
  show ?thesis
    using world_disabled_facts(1,2) e
    by (simp add: run_fill_fails [OF world_disabled_facts(1) e])
qed

text \<open>
  C2. In every run in which navigation succeeds and the element \<open>baseUrlInput\<close> is absent
  or not visible, the branch does not raise: the script prints \<open>Base URL input NOT visible\<close>
  (and not the other line), makes no \<open>fill\<close> call, leaves the document as it was loaded,
  and goes on to the screenshot, which is written.
\<close>

theorem C2_not_visible_continues:
  assumes "navigation_succeeds w" and "\<not> element_visible w"
  shows "fst (run w) = None
    \<and> ''Base URL input NOT visible'' \<in> set (out (snd (run w)))
    \<and> ''Base URL input is visible'' \<notin> set (out (snd (run w)))
    \<and> (\<forall>sel v. Fill sel v \<notin> set (trace (snd (run w))))
    \<and> page (snd (run w)) = loaded_dom w
    \<and> Screenshot ''verification/taskpane_screenshot.png'' None \<in> set (trace (snd (run w)))
    \<and> fs (snd (run w)) (screenshot_path w)
        = Some (Image \<lparr>full_page = False,
                       rows = min (height (loaded_dom w)) viewport_height,
                       shown = loaded_dom w\<rparr>)"
  by (simp add: run_not_visible [OF assms])

theorem C2_witness:
  "navigation_succeeds world_hidden \<and> \<not> element_visible world_hidden
   \<and> fst (run world_hidden) = None
   \<and> ''Base URL input NOT visible'' \<in> set (out (snd (run world_hidden)))
   \<and> elements (page (snd (run world_hidden))) ''baseUrlInput''
       = Some \<lparr>visible = False, editable = True, val = ''old''\<rparr>
   \<and> fs (snd (run world_hidden)) ''/w/verification/taskpane_screenshot.png''
       = Some (Image \<lparr>full_page = False, rows = 600, shown = doc_hidden\<rparr>)"
proof -
  have d: "loaded_dom world_hidden = doc_hidden"
    and s: "screenshot_path world_hidden = ''/w/verification/taskpane_screenshot.png''"
    by (simp_all add: world_defs eval_defs)
  have h: "min (height doc_hidden) viewport_height = 600"
    and el: "elements doc_hidden ''baseUrlInput''
      = Some \<lparr>visible = False, editable = True, val = ''old''\<rparr>"
    by (simp_all add: world_defs viewport_height_def)
  show ?thesis
    using C2_not_visible_continues [OF world_hidden_facts] world_hidden_facts
    by (simp add: d s h el)
qed




text \<open>
  C4, as amended. When the navigation is attempted (the browser was launched and the
  line before it printed), the working directory has no character that is special in a
  URL, and the target HTML file does not exist or cannot be read, the run fails with
  \<open>NavigationError\<close>; the error is not caught and the process ends with status 1; no
  \<open>screenshot\<close> call is made and the file system is left as it was.
\<close>

theorem C4_navigation_error:
  assumes "navigation_attempted w" and "list_all url_char (cwd w)"
    and "load (files w (target_path w)) = None"
  shows "fst (run w) = Some NavigationError
    \<and> fst (main w) = 1
    \<and> (\<forall>p f. Screenshot p f \<notin> set (trace (snd (run w))))
    \<and> fs (snd (run w)) = files w"
proof -
  have "load (files w (opened_path w)) = None"
    using assms(3) by (simp add: opened_path_plain [OF assms(2)])
  from run_navigation_fails [OF assms(1) this] show ?thesis
    by (simp add: main_def)
qed

theorem C4_witness:
  "navigation_attempted world_denied
   \<and> files world_denied (target_path world_denied) = Some Denied
   \<and> fst (run world_denied) = Some NavigationError
   \<and> fst (main world_denied) = 1
   \<and> fs (snd (run world_denied)) ''/w/verification/taskpane_screenshot.png'' = None"
  using C4_navigation_error [OF world_denied_facts(1,2,3)] world_denied_facts
  by (simp add: world_defs)

text \<open>The claim as it was stated fails in two ways. With no target file and no browser
  build the run fails with \<open>EnvironmentError\<close>, before any navigation. And in a working
  directory with \<open>#\<close> in its name the URL of the script points to another file: with no
  target file the run can still succeed and produce a screenshot.\<close>

theorem C4_counterexample:
  "files world_no_browser (target_path world_no_browser) = None
   \<and> fst (run world_no_browser) = Some EnvironmentError
   \<and> files world_hash_other (target_path world_hash_other) = None
   \<and> fst (run world_hash_other) = None
   \<and> fst (main world_hash_other) = 0
   \<and> fs (snd (run world_hash_other)) ''/home/u/C#/proj/verification/taskpane_screenshot.png''
       \<noteq> None"
  using world_no_browser_facts world_hash_other_facts(3,4)
  by (simp add: run_launch_fails [OF world_no_browser_facts(1)] main_def
      run_not_visible [OF world_hash_other_facts(1,2)])

text \<open>
  C5. For every working directory, the URL the script navigates to is \<open>file://\<close>, the
  working directory and \<open>/src/taskpane/taskpane.html\<close> concatenated; it has the scheme
  \<open>file://\<close>; it is the only URL of any \<open>goto\<close> call of the run, a call made exactly when
  the navigation is attempted, and the run makes no network request.
\<close>

theorem C5_local_file_url:
  "filepath (cwd w) = ''file://'' @ cwd w @ ''/src/taskpane/taskpane.html''
   \<and> take 7 (filepath (cwd w)) = ''file://''
   \<and> (\<forall>url. Goto url \<in> set (trace (snd (run w))) \<longrightarrow> url = filepath (cwd w))
   \<and> (Goto (filepath (cwd w)) \<in> set (trace (snd (run w)))) = navigation_attempted w
   \<and> requests (snd (run w)) = []"
proof -
  have "(\<forall>url. Goto url \<in> set (trace (snd (run w))) \<longrightarrow> url = filepath (cwd w))
    \<and> (Goto (filepath (cwd w)) \<in> set (trace (snd (run w)))) = navigation_attempted w
    \<and> requests (snd (run w)) = []"
  proof (cases w rule: run_cases)
    case launch_fails
    then show ?thesis by (simp add: run_launch_fails navigation_attempted_def)
  next
    case print_fails
    then show ?thesis by (simp add: run_print_fails navigation_attempted_def)
  next
    case navigation_fails
    then show ?thesis by (simp add: run_navigation_fails)
  next
    case (filled e)
    then show ?thesis by (simp add: run_filled) (simp add: navigation_succeeds_def)
  next
    case (fill_fails e)
    then show ?thesis by (simp add: run_fill_fails) (simp add: navigation_succeeds_def)
  next
    case not_visible
    then show ?thesis by (simp add: run_not_visible) (simp add: navigation_succeeds_def)
  qed
  moreover have "filepath (cwd w) = ''file://'' @ cwd w @ ''/src/taskpane/taskpane.html''"
    by (simp add: filepath_def)
  ultimately show ?thesis
    using filepath_scheme [of "cwd w"] by blast
qed

theorem C5_witness:
  "navigation_attempted world_visible
   \<and> Goto ''file:///w/src/taskpane/taskpane.html'' \<in> set (trace (snd (run world_visible)))
   \<and> filepath (cwd world_visible) = ''file:///w/src/taskpane/taskpane.html''
   \<and> requests (snd (run world_visible)) = []"
proof -
  have rt: "navigation_attempted world_visible"
    using world_visible_facts(1) by (simp add: navigation_succeeds_def)
  have fp: "filepath (cwd world_visible) = ''file:///w/src/taskpane/taskpane.html''"
    by (simp add: world_defs filepath_def)
  show ?thesis
    using C5_local_file_url [of world_visible] rt fp by simp
qed

text \<open>
  C6, as amended. Whenever navigation succeeds and the \<open>fill\<close>, if it is made, does not
  raise, the script calls \<open>screenshot\<close> with the path
  \<open>verification/taskpane_screenshot.png\<close> and no \<open>full_page\<close> argument: the capture is of
  the viewport (the first 720 pixel rows of the page, all of it only when the page is no
  taller), it shows the page as the run left it, and it is written to that path under the
  working directory, whether a file was there before or not; no other file changes.
\<close>

theorem C6_viewport_screenshot:
  assumes "navigation_succeeds w" and "fill_succeeds w"
  shows "Screenshot ''verification/taskpane_screenshot.png'' None \<in> set (trace (snd (run w)))
    \<and> fs (snd (run w))
        = (files w)(screenshot_path w \<mapsto>
             Image \<lparr>full_page = False,
                    rows = min (height (page (snd (run w)))) viewport_height,
                    shown = page (snd (run w))\<rparr>)"
proof (cases "element_visible w")
  case True
  then obtain e where e: "elements (loaded_dom w) ''baseUrlInput'' = Some e" "visible e"
    by (auto simp add: element_visible_def split: option.splits)
  have "editable e"
    using assms(2) True element_flags(2) [OF e(1)] by (simp add: fill_succeeds_def)
  from run_filled [OF assms(1) e this] show ?thesis
    by simp
next
  case False
  show ?thesis
    by (simp add: run_not_visible [OF assms(1) False])
qed

theorem C6_witness:
  "navigation_succeeds world_rerun \<and> fill_succeeds world_rerun
   \<and> files world_rerun ''/w/verification/taskpane_screenshot.png''
       = Some (Image \<lparr>full_page = False, rows = 0, shown = blank\<rparr>)
   \<and> fs (snd (run world_rerun)) ''/w/verification/taskpane_screenshot.png''
       = Some (Image \<lparr>full_page = False, rows = 600, shown = doc_hidden\<rparr>)
   \<and> fs (snd (run world_rerun)) ''/w/src/taskpane/taskpane.html'' = Some (Html doc_hidden)"
proof -
  have p: "page (snd (run world_rerun)) = doc_hidden"
    by (simp add: run_not_visible [OF world_rerun_facts(1,3)] world_rerun_facts(4))
  have f: "files world_rerun = [''/w/src/taskpane/taskpane.html'' \<mapsto> Html doc_hidden,
      ''/w/verification/taskpane_screenshot.png'' \<mapsto>
        Image \<lparr>full_page = False, rows = 0, shown = blank\<rparr>]"
    by (simp add: world_rerun_def world_of_def)
  have h: "min (height doc_hidden) viewport_height = 600"
    by (simp add: world_defs viewport_height_def)
  show ?thesis
    using C6_viewport_screenshot [OF world_rerun_facts(1,2)] world_rerun_facts(1,2)
    by (simp add: p f h world_rerun_facts(5))
qed

text \<open>The claim as it was stated fails in two ways. On a page 2000 pixels high the image
  written holds 720 rows, the viewport, not the entire page. And on a page whose input is
  visible and disabled navigation succeeds and no screenshot is taken at all.\<close>

theorem C6_counterexample:
  "navigation_succeeds world_tall
   \<and> (\<exists>i. fs (snd (run world_tall)) ''/w/verification/taskpane_screenshot.png''
            = Some (Image i)
          \<and> \<not> full_page i \<and> rows i = 720 \<and> height (shown i) = 2000)
   \<and> navigation_succeeds world_disabled
   \<and> (\<forall>p f. Screenshot p f \<notin> set (trace (snd (run world_disabled))))
   \<and> fs (snd (run world_disabled)) ''/w/verification/taskpane_screenshot.png'' = None"
proof -
  have et: "elements (loaded_dom world_tall) ''baseUrlInput''
      = Some \<lparr>visible = True, editable = True, val = []\<rparr>"
    and ht: "height (loaded_dom world_tall) = 2000"
    by (simp_all add: world_tall_facts(3)) (simp_all add: world_defs)
  have ed: "elements (loaded_dom world_disabled) ''baseUrlInput''
      = Some \<lparr>visible = True, editable = False, val = ''old''\<rparr>"
    and fd: "files world_disabled ''/w/verification/taskpane_screenshot.png'' = None"
    by (simp_all add: world_defs eval_defs)
  show ?thesis
    using world_tall_facts(1) world_disabled_facts(1)
    by (simp add: run_filled [OF world_tall_facts(1) et] world_tall_facts(4) ht
        viewport_height_def run_fill_fails [OF world_disabled_facts(1) ed] fd)
qed

text \<open>
  C7. In every run the observable steps come in the order of the script, each at most
  once: launch, navigation, visibility query, fill (only when the element is visible),
  screenshot, closing the browser, and the exit of the Playwright context last. A run that
  ends early has a prefix of that sequence followed by the exit; a run that ends without
  an error has all of it.
\<close>

theorem C7_steps_in_order:
  "sorted_wrt (<) (steps (trace (snd (run w))))
   \<and> steps (trace (snd (run w)))
       = (if \<not> navigation_attempted w then [0, 6]
          else if \<not> navigation_succeeds w then [0, 1, 6]
          else if \<not> element_visible w then [0, 1, 2, 4, 5, 6]
          else if element_editable w then [0, 1, 2, 3, 4, 5, 6]
          else [0, 1, 2, 3, 6])"
proof (cases w rule: run_cases)
  case launch_fails
  then show ?thesis
    by (simp add: run_launch_fails steps_def map_filter_simps navigation_attempted_def)
next
  case print_fails
  then show ?thesis
    by (simp add: run_print_fails steps_def map_filter_simps navigation_attempted_def)
next
  case navigation_fails
  then show ?thesis
    by (simp add: run_navigation_fails steps_def map_filter_simps navigation_succeeds_def)
next
  case (filled e)
  then show ?thesis
    by (simp add: run_filled steps_def map_filter_simps element_flags)
       (simp add: navigation_succeeds_def)
next
  case (fill_fails e)
  then show ?thesis
    by (simp add: run_fill_fails steps_def map_filter_simps element_flags)
       (simp add: navigation_succeeds_def)
next
  case not_visible
  then show ?thesis
    by (simp add: run_not_visible steps_def map_filter_simps)
       (simp add: navigation_succeeds_def)
qed

theorem C7_witness:
  "navigation_succeeds world_visible
   \<and> steps (trace (snd (run world_visible))) = [0, 1, 2, 3, 4, 5, 6]
   \<and> sorted_wrt (<) (steps (trace (snd (run world_visible))))"
proof -
  have "navigation_attempted world_visible"
    using world_visible_facts(1) by (simp add: navigation_succeeds_def)
  then show ?thesis
    using C7_steps_in_order [of world_visible] world_visible_facts by simp
qed




text \<open>
  C9. In every run in which navigation succeeds, exactly one of the lines
  \<open>Base URL input is visible\<close> and \<open>Base URL input NOT visible\<close> is printed, never both
  and never neither, and it is printed after the \<open>Navigating to ...\<close> line.
\<close>

theorem C9_one_diagnostic_line:
  assumes "navigation_succeeds w"
  shows "length (filter diagnostic (out (snd (run w)))) = 1
    \<and> (''Base URL input is visible'' \<in> set (out (snd (run w))))
        \<noteq> (''Base URL input NOT visible'' \<in> set (out (snd (run w))))
    \<and> (\<exists>l. diagnostic l
          \<and> out (snd (run w)) = [''Navigating to '' @ filepath (cwd w), l])"
proof (cases "element_visible w")
  case True
  then obtain e where e: "elements (loaded_dom w) ''baseUrlInput'' = Some e" "visible e"
    by (auto simp add: element_visible_def split: option.splits)
  show ?thesis
  proof (cases "editable e")
    case True
    show ?thesis
      by (simp add: run_filled [OF assms e True] diagnostic_def)
  next
    case False
    show ?thesis
      by (simp add: run_fill_fails [OF assms e False] diagnostic_def)
  qed
next
  case False
  show ?thesis
    by (simp add: run_not_visible [OF assms False] diagnostic_def)
qed

theorem C9_witness:
  "navigation_succeeds world_absent
   \<and> out (snd (run world_absent))
       = [''Navigating to file:///w/src/taskpane/taskpane.html'', ''Base URL input NOT visible'']
   \<and> length (filter diagnostic (out (snd (run world_absent)))) = 1"
proof -
  have o: "out (snd (run world_absent))
      = [''Navigating to file:///w/src/taskpane/taskpane.html'', ''Base URL input NOT visible'']"
    by (simp add: run_not_visible [OF world_absent_facts])
       (simp add: world_defs filepath_def)
  show ?thesis
    using C9_one_diagnostic_line [OF world_absent_facts(1)] world_absent_facts(1) o
    by (simp add: diagnostic_def)
qed




section \<open>Further properties of the run\<close>

text \<open>
  X1. A run ends without an error exactly when navigation succeeds and the \<open>fill\<close>, if it
  is made, does not raise; the exit status of the process is 0 exactly then.
\<close>

theorem X1_run_succeeds_iff:
  "(fst (run w) = None) = (navigation_succeeds w \<and> fill_succeeds w)
   \<and> (fst (main w) = 0) = (fst (run w) = None)"
proof (cases w rule: run_cases)
  case launch_fails
  then show ?thesis
    by (simp add: run_launch_fails main_def navigation_succeeds_def navigation_attempted_def)
next
  case print_fails
  then show ?thesis
    by (simp add: run_print_fails main_def navigation_succeeds_def navigation_attempted_def)
next
  case navigation_fails
  then show ?thesis
    by (simp add: run_navigation_fails main_def navigation_succeeds_def)
next
  case (filled e)
  then show ?thesis
    by (simp add: run_filled main_def fill_succeeds_def element_flags)
next
  case (fill_fails e)
  then show ?thesis
    by (simp add: run_fill_fails main_def fill_succeeds_def element_flags)
next
  case not_visible
  then show ?thesis
    by (simp add: run_not_visible main_def fill_succeeds_def)
qed

end
